theory Spec2Isabelle
  imports Main
begin

section \<open>JavaScript values used by certs.js\<close>

text \<open>
  The class \<open>TycrekCert\<close> of \<open>certs.js\<close> drives external libraries (the ACME client, the
  DigitalOcean DNS plugin, Keypairs, CSR, PEM, \<open>fs\<close>, \<open>path\<close>, \<open>console\<close>). The embedding
  keeps the class as it is written: the instance is a record, every method takes the
  instance and the outside world and returns both updated, a thrown error or rejected
  promise is \<open>Inl\<close>, and every external library function is a field of the record \<open>env\<close>.

  A property that can be \<open>undefined\<close> or a string is a \<open>jsval\<close>.
\<close>

datatype jsval = JUndefined | JStr string

text \<open>\<open>v || d\<close> for a string literal \<open>d\<close>: \<open>undefined\<close> and the empty string are falsy.\<close>

definition js_or :: "jsval \<Rightarrow> string \<Rightarrow> string" where
  "js_or v d = (case v of JUndefined \<Rightarrow> d | JStr t \<Rightarrow> if t = [] then d else t)"

text \<open>The string a value becomes when \<open>+\<close> concatenates it to a string.\<close>

definition js_string :: "jsval \<Rightarrow> string" where
  "js_string v = (case v of JUndefined \<Rightarrow> ''undefined'' | JStr t \<Rightarrow> t)"

text \<open>
  \<open>String.prototype.toUpperCase\<close> on the ASCII letters. The source applies it only to the
  event names \<open>error\<close> and \<open>warning\<close>.
\<close>

definition upper_char :: "char \<Rightarrow> char" where
  "upper_char c =
     (let n = (of_char c :: nat) in if 97 \<le> n \<and> n \<le> 122 then char_of (n - 32) else c)"

definition toUpperCase :: "string \<Rightarrow> string" where
  "toUpperCase t = map upper_char t"

text \<open>\<open>Array.prototype.join\<close> on an array of strings.\<close>

fun join :: "string \<Rightarrow> string list \<Rightarrow> string" where
  "join sep [] = []"
| "join sep [x] = x"
| "join sep (x # y # ys) = x @ sep @ join sep (y # ys)"

section \<open>Constants of the module\<close>

definition DO_BASE_URL :: string where
  "DO_BASE_URL = ''https://api.digitalocean.com/v2/domains''"

text \<open>The object literal \<open>DIRECTORY_URL\<close>, read by key; a key it lacks reads \<open>undefined\<close>.\<close>

definition DIRECTORY_URL :: "string \<Rightarrow> jsval" where
  "DIRECTORY_URL k =
     (if k = ''prod'' then JStr ''https://acme-v02.api.letsencrypt.org/directory''
      else if k = ''test'' then JStr ''https://acme-staging-v02.api.letsencrypt.org/directory''
      else JUndefined)"

definition PROPAGATION_DELAY :: nat where
  "PROPAGATION_DELAY = 5000"

definition LOG_PREFIX :: string where
  "LOG_PREFIX = ''[ TycrekCert ]''"

section \<open>The instance, the outside world and the external libraries\<close>

type_synonym jwk = string

type_synonym ext_err = string

text \<open>
  An error is either a \<open>TypeError\<close> the class's own code raises, or whatever an external
  call threw or rejected with, passed on unchanged.
\<close>

datatype error = TypeError string | Thrown ext_err

datatype logger = Console | Logger nat

datatype level = Info | Warn

datatype log_entry = Log (sink: logger) (lvl: level) (args: "jsval list")

record challenge =
  baseUrl :: string
  token :: string
  propagationDelay :: nat

record acme_client =
  acme_maintainerEmail :: jsval
  packageAgent :: string

record keypair =
  private_jwk :: jwk
  public_jwk :: jwk

datatype account_key = AccountKey (kid: jsval)

record account_obj =
  key :: "account_key option"

text \<open>
  The property \<open>account\<close> of an instance: the prototype's method until the method body
  assigns \<open>this.account\<close>, the assigned object afterwards.
\<close>

datatype account_prop = AccountMethod | AccountValue account_obj

record msg =
  message :: jsval
  altname :: jsval
  status :: jsval

type_synonym event = "string \<times> msg"

record pems =
  cert :: string
  chain :: string

record cert_request =
  req_account :: account_prop
  req_accountKey :: "jwk option"
  req_csr :: string
  req_domains :: "string list"
  req_challenges :: "(string \<times> challenge) list"

record session =
  errors :: "string list"
  domains :: "string list"
  maintainerEmail :: jsval
  subscriberEmail :: jsval
  testing :: bool
  log :: logger
  challenge :: challenge
  acme :: acme_client
  accountKey :: "jwk option"
  serverKey :: "jwk option"
  account :: account_prop
  savePath :: jsval

text \<open>
  Every call the class makes into a library, with its arguments. The world keeps them in
  the order they were made (\<open>trace\<close>), together with the content of the files written
  (\<open>files\<close>: a \<open>writeFile\<close> that succeeds stores its data under its path) and the lines
  logged (\<open>logged\<close>).
\<close>

datatype call =
    DoCreate string string
  | AcmeCreate jsval string
  | AcmeInit jsval
  | KeypairsGenerate string string
  | AccountsCreate jsval "jwk option" bool
  | CsrCsr "jwk option" "string list" string
  | PemPackBlock string string
  | CertificatesCreate cert_request
  | KeypairsExport "jwk option"
  | WriteFile string string string

record world =
  trace :: "call list"
  files :: "string \<rightharpoonup> string"
  logged :: "log_entry list"

text \<open>
  The libraries, as parameters. A call that can throw or reject returns \<open>Inl\<close> (or
  \<open>Some\<close> error when it has no result). The three calls into the ACME client also
  return the events the client passes to the \<open>notify\<close> callback while the call runs.
  \<open>pkg_name\<close> and \<open>pkg_version\<close> are the two fields read from \<open>package.json\<close>.
\<close>

record env =
  pkg_name :: string
  pkg_version :: string
  do_create :: "string \<Rightarrow> string \<Rightarrow> ext_err option"
  acme_create :: "jsval \<Rightarrow> string \<Rightarrow> ext_err option"
  acme_init :: "jsval \<Rightarrow> event list \<times> ext_err option"
  keypairs_generate :: "string \<Rightarrow> string \<Rightarrow> ext_err + keypair"
  accounts_create :: "jsval \<Rightarrow> jwk option \<Rightarrow> bool \<Rightarrow> event list \<times> (ext_err + account_obj)"
  csr_csr :: "jwk option \<Rightarrow> string list \<Rightarrow> string \<Rightarrow> ext_err + string"
  pem_packBlock :: "string \<Rightarrow> string \<Rightarrow> ext_err + string"
  certificates_create :: "cert_request \<Rightarrow> event list \<times> (ext_err + pems)"
  keypairs_export :: "jwk option \<Rightarrow> ext_err + string"
  path_join :: "string \<Rightarrow> string \<Rightarrow> string"
  fs_writeFile :: "string \<Rightarrow> string \<Rightarrow> string \<Rightarrow> ext_err option"

definition called :: "world \<Rightarrow> call \<Rightarrow> world" where
  "called w c = w\<lparr>trace := trace w @ [c]\<rparr>"

text \<open>\<open>this.log.info(...)\<close> and \<open>this.log.warn(...)\<close>.\<close>

definition info :: "session \<Rightarrow> world \<Rightarrow> jsval list \<Rightarrow> world" where
  "info s w as = w\<lparr>logged := logged w @ [Log (log s) Info as]\<rparr>"

definition warn :: "session \<Rightarrow> world \<Rightarrow> jsval list \<Rightarrow> world" where
  "warn s w as = w\<lparr>logged := logged w @ [Log (log s) Warn as]\<rparr>"

section \<open>The notification callback\<close>

definition notify :: "session \<Rightarrow> world \<Rightarrow> string \<Rightarrow> msg \<Rightarrow> session \<times> world" where
  "notify s w ev m =
     (if ev = ''error'' \<or> ev = ''warning''
      then (s\<lparr>errors := errors s @ [toUpperCase ev @ '': '' @ js_string (message m)]\<rparr>, w)
      else (s, info s w [JStr LOG_PREFIX, JStr (ev @ '':''),
                         JStr (js_or (altname m) ''''), JStr (js_or (status m) '''')]))"

text \<open>The events of one library call, delivered in order.\<close>

fun notify_all :: "session \<Rightarrow> world \<Rightarrow> event list \<Rightarrow> session \<times> world" where
  "notify_all s w [] = (s, w)"
| "notify_all s w ((ev, m) # evs) = (case notify s w ev m of (s', w') \<Rightarrow> notify_all s' w' evs)"

section \<open>The class TycrekCert\<close>

text \<open>
  \<open>testing = false\<close> and \<open>log = console\<close> are default parameters: \<open>None\<close> is an omitted
  argument. The body assigns \<open>this.log = console\<close>; the parameter \<open>log\<close> is not read.
\<close>

definition "constructor" ::
  "env \<Rightarrow> string \<Rightarrow> string list \<Rightarrow> jsval \<Rightarrow> jsval \<Rightarrow> bool option \<Rightarrow> logger option \<Rightarrow> world
     \<Rightarrow> (error + session) \<times> world" where
  "constructor E tok ds mEmail sEmail testing_arg log_arg w =
     (let testing_v = (case testing_arg of None \<Rightarrow> False | Some b \<Rightarrow> b);
          w1 = called w (DoCreate DO_BASE_URL tok)
      in case do_create E DO_BASE_URL tok of
           Some e \<Rightarrow> (Inl (Thrown e), w1)
         | None \<Rightarrow>
            (let ch = \<lparr>baseUrl = DO_BASE_URL, token = tok, propagationDelay = PROPAGATION_DELAY\<rparr>;
                 agent = ''node-cert'' @ pkg_name E @ ''/'' @ pkg_version E;
                 w2 = called w1 (AcmeCreate mEmail agent)
             in case acme_create E mEmail agent of
                  Some e \<Rightarrow> (Inl (Thrown e), w2)
                | None \<Rightarrow>
                   (Inr \<lparr>errors = [], domains = ds, maintainerEmail = mEmail,
                         subscriberEmail = sEmail, testing = testing_v, log = Console,
                         challenge = ch,
                         acme = \<lparr>acme_maintainerEmail = mEmail, packageAgent = agent\<rparr>,
                         accountKey = None, serverKey = None, account = AccountMethod,
                         savePath = JUndefined\<rparr>, w2)))"

definition init :: "env \<Rightarrow> session \<Rightarrow> world \<Rightarrow> (error + unit) \<times> session \<times> world" where
  "init E s w =
     (let url = DIRECTORY_URL (if testing s then ''test'' else ''prod'');
          w1 = called w (AcmeInit url)
      in case acme_init E url of (evs, r) \<Rightarrow>
         (case notify_all s w1 evs of (s1, w2) \<Rightarrow>
          (case r of
             Some e \<Rightarrow> (Inl (Thrown e), s1, w2)
           | None \<Rightarrow>
              (let w3 = called w2 (KeypairsGenerate ''EC'' ''jwk'') in
               case keypairs_generate E ''EC'' ''jwk'' of
                 Inl e \<Rightarrow> (Inl (Thrown e), s1, w3)
               | Inr ec \<Rightarrow>
                  (let s2 = s1\<lparr>accountKey := Some (private_jwk ec)\<rparr>;
                       w4 = called w3 (KeypairsGenerate ''RSA'' ''jwk'')
                   in case keypairs_generate E ''RSA'' ''jwk'' of
                        Inl e \<Rightarrow> (Inl (Thrown e), s2, w4)
                      | Inr rsa \<Rightarrow>
                         (let s3 = s2\<lparr>serverKey := Some (private_jwk rsa)\<rparr>
                          in (Inr (), s3,
                              info s3 w4 [JStr LOG_PREFIX,
                                JStr ''ACME client and private keys successfully initialized''])))))))"

text \<open>
  The body of the prototype's method \<open>account\<close>. The assignment \<open>this.account = ...\<close>
  happens as soon as the library call resolves, before \<open>this.account.key.kid\<close> is read.
\<close>

definition TycrekCert_account ::
  "env \<Rightarrow> session \<Rightarrow> world \<Rightarrow> (error + unit) \<times> session \<times> world" where
  "TycrekCert_account E s w =
     (let w1 = info s w [JStr LOG_PREFIX, JStr ''Registering new ACME account...''];
          w2 = called w1 (AccountsCreate (subscriberEmail s) (accountKey s) True)
      in case accounts_create E (subscriberEmail s) (accountKey s) True of (evs, r) \<Rightarrow>
         (case notify_all s w2 evs of (s1, w3) \<Rightarrow>
          (case r of
             Inl e \<Rightarrow> (Inl (Thrown e), s1, w3)
           | Inr a \<Rightarrow>
              (let s2 = s1\<lparr>account := AccountValue a\<rparr> in
               case key a of
                 None \<Rightarrow> (Inl (TypeError ''Cannot read property kid of undefined''), s2, w3)
               | Some k \<Rightarrow>
                  (Inr (), s2,
                   info s2 w3 [JStr LOG_PREFIX, JStr ''ACME account registered with ID:'',
                               kid k])))))"

text \<open>
  The call \<open>cert.account()\<close>: it looks the property up on the instance first, and calling
  a property that holds an object is a \<open>TypeError\<close>.
\<close>

definition call_account ::
  "env \<Rightarrow> session \<Rightarrow> world \<Rightarrow> (error + unit) \<times> session \<times> world" where
  "call_account E s w =
     (case account s of
        AccountMethod \<Rightarrow> TycrekCert_account E s w
      | AccountValue a \<Rightarrow> (Inl (TypeError ''cert.account is not a function''), s, w))"

definition setSavePath :: "session \<Rightarrow> world \<Rightarrow> string \<Rightarrow> session \<times> world" where
  "setSavePath s w p =
     (let s1 = s\<lparr>savePath := JStr p\<rparr>
      in (s1, info s1 w [JStr LOG_PREFIX, JStr ''Set save path to:'', JStr p]))"

definition createCertificate ::
  "env \<Rightarrow> session \<Rightarrow> world \<Rightarrow> (error + unit) \<times> session \<times> world" where
  "createCertificate E s w =
     (let w1 = info s w [JStr LOG_PREFIX, JStr ''Validating domain authorization for:'',
                          JStr (join '', '' (domains s))];
          w2 = called w1 (CsrCsr (serverKey s) (domains s) ''der'')
      in case csr_csr E (serverKey s) (domains s) ''der'' of
           Inl e \<Rightarrow> (Inl (Thrown e), s, w2)
         | Inr bytes \<Rightarrow>
            (let w3 = called w2 (PemPackBlock ''CERTIFICATE REQUEST'' bytes) in
             case pem_packBlock E ''CERTIFICATE REQUEST'' bytes of
               Inl e \<Rightarrow> (Inl (Thrown e), s, w3)
             | Inr csr \<Rightarrow>
                (let req = \<lparr>req_account = account s, req_accountKey = accountKey s,
                            req_csr = csr, req_domains = domains s,
                            req_challenges = [(''dns-01'', challenge s)]\<rparr>;
                     w4 = called w3 (CertificatesCreate req)
                 in case certificates_create E req of (evs, r) \<Rightarrow>
                    (case notify_all s w4 evs of (s1, w5) \<Rightarrow>
                     (case r of
                        Inl e \<Rightarrow> (Inl (Thrown e), s1, w5)
                      | Inr ps \<Rightarrow>
                         (let w6 = called w5 (KeypairsExport (serverKey s1)) in
                          case keypairs_export E (serverKey s1) of
                            Inl e \<Rightarrow> (Inl (Thrown e), s1, w6)
                          | Inr data \<Rightarrow>
                             (let p1 = path_join E (js_or (savePath s1) ''.'') ''privkey.pem'';
                                  w7 = called w6 (WriteFile p1 data ''ascii'')
                              in case fs_writeFile E p1 data ''ascii'' of
                                   Some e \<Rightarrow> (Inl (Thrown e), s1, w7)
                                 | None \<Rightarrow>
                                    (let w8 = info s1 (w7\<lparr>files := (files w7)(p1 \<mapsto> data)\<rparr>)
                                                [JStr LOG_PREFIX, JStr ''Saved privkey.pem''];
                                         p2 = path_join E (js_or (savePath s1) ''.'')
                                                ''fullchain.pem'';
                                         full = cert ps @ ''\<newline>'' @ chain ps @ ''\<newline>'';
                                         w9 = called w8 (WriteFile p2 full ''ascii'')
                                     in case fs_writeFile E p2 full ''ascii'' of
                                          Some e \<Rightarrow> (Inl (Thrown e), s1, w9)
                                        | None \<Rightarrow>
                                           (let w10 = info s1
                                                  (w9\<lparr>files := (files w9)(p2 \<mapsto> full)\<rparr>)
                                                  [JStr LOG_PREFIX, JStr ''Saved fullchain.pem''];
                                                w11 =
                                                  (if errors s1 \<noteq> []
                                                   then warn s1
                                                     (warn s1 w10 [JStr LOG_PREFIX,
                                                        JStr ''The following warnings and/or errors were encountered:''])
                                                     [JStr LOG_PREFIX,
                                                      JStr (join ''\<newline>'' (errors s1))]
                                                   else w10)
                                            in (Inr (), s1, w11))))))))))"

definition callThisForHelp :: "session \<Rightarrow> world \<Rightarrow> world" where
  "callThisForHelp s w =
     info s w [JStr (''\<newline>'' @ LOG_PREFIX @ '' '' @ ''Help'' @ ''\<newline>'' @
       ''    1. Create the object: var foo = new TycrekCert(parameters)'' @ ''\<newline>'' @
       ''    2. Call init()'' @ ''\<newline>'' @
       ''    3. Call account()'' @ ''\<newline>'' @
       ''    4. Call createCertificate()'' @ ''\<newline>'' @
       ''    '' @ ''\<newline>'' @
       ''    If you want to change where fullchain.pem and privkey.pem are saved, call setSavePath() with the ABSOLUTE path before calling createCertificate()'')]"

section \<open>Clients of an instance\<close>

text \<open>
  A client calls the methods of an instance one after the other. \<open>exec\<close> is the most
  general client: it goes on whatever a call returned, as a caller that catches the
  rejection would.
\<close>

datatype operation = Init | Account | SetSavePath string | CreateCertificate | CallThisForHelp

fun invoke :: "env \<Rightarrow> operation \<Rightarrow> session \<Rightarrow> world \<Rightarrow> (error + unit) \<times> session \<times> world" where
  "invoke E Init s w = init E s w"
| "invoke E Account s w = call_account E s w"
| "invoke E (SetSavePath p) s w = (case setSavePath s w p of (s', w') \<Rightarrow> (Inr (), s', w'))"
| "invoke E CreateCertificate s w = createCertificate E s w"
| "invoke E CallThisForHelp s w = (Inr (), s, callThisForHelp s w)"

fun exec :: "env \<Rightarrow> operation list \<Rightarrow> session \<Rightarrow> world \<Rightarrow> session \<times> world" where
  "exec E [] s w = (s, w)"
| "exec E (m # ms) s w = (case invoke E m s w of (r, s', w') \<Rightarrow> exec E ms s' w')"

section \<open>What a list of events leaves behind\<close>

text \<open>
  The entries the callback appends to \<open>this.errors\<close> for a list of events, and the lines
  it logs for them.
\<close>

fun recorded :: "event list \<Rightarrow> string list" where
  "recorded [] = []"
| "recorded ((ev, m) # evs) =
     (if ev = ''error'' \<or> ev = ''warning''
      then (toUpperCase ev @ '': '' @ js_string (message m)) # recorded evs
      else recorded evs)"

fun reported :: "logger \<Rightarrow> event list \<Rightarrow> log_entry list" where
  "reported l [] = []"
| "reported l ((ev, m) # evs) =
     (if ev = ''error'' \<or> ev = ''warning''
      then reported l evs
      else Log l Info [JStr LOG_PREFIX, JStr (ev @ '':''),
                       JStr (js_or (altname m) ''''), JStr (js_or (status m) '''')]
           # reported l evs)"

text \<open>The request \<open>createCertificate\<close> hands to \<open>acme.certificates.create\<close>.\<close>

definition request_of :: "session \<Rightarrow> string \<Rightarrow> cert_request" where
  "request_of s csr =
     \<lparr>req_account = account s, req_accountKey = accountKey s, req_csr = csr,
      req_domains = domains s, req_challenges = [(''dns-01'', challenge s)]\<rparr>"

section \<open>A test double for the libraries\<close>

text \<open>
  Libraries that accept every call, for evaluating the class on concrete inputs. The
  ACME client reports one warning and one status event while it issues the certificate.
\<close>

definition world0 :: world where
  "world0 = \<lparr>trace = [], files = Map.empty, logged = []\<rparr>"

definition demo_events :: "event list" where
  "demo_events =
     [(''warning'', \<lparr>message = JStr ''rate limit close'', altname = JUndefined, status = JUndefined\<rparr>),
      (''challenge_status'', \<lparr>message = JUndefined, altname = JStr ''example.com'',
                              status = JStr ''valid''\<rparr>)]"

definition demo_env :: env where
  "demo_env =
     \<lparr>pkg_name = ''tycrek-certs-custom'', pkg_version = ''1.0.0'',
      do_create = (\<lambda>u t. None),
      acme_create = (\<lambda>m a. None),
      acme_init = (\<lambda>u. ([], None)),
      keypairs_generate = (\<lambda>kty f. Inr \<lparr>private_jwk = kty @ ''-private'', public_jwk = kty @ ''-public''\<rparr>),
      accounts_create = (\<lambda>m k a. ([], Inr \<lparr>key = Some (AccountKey (JStr ''kid-1''))\<rparr>)),
      csr_csr = (\<lambda>k ds enc. Inr ''DER''),
      pem_packBlock = (\<lambda>ty b. Inr (ty @ '':'' @ b)),
      certificates_create = (\<lambda>r. (demo_events, Inr \<lparr>cert = ''CERT'', chain = ''CHAIN''\<rparr>)),
      keypairs_export = (\<lambda>k. Inr ''PRIVKEY''),
      path_join = (\<lambda>d f. d @ ''/'' @ f),
      fs_writeFile = (\<lambda>p d enc. None)\<rparr>"

text \<open>The same libraries, with a DNS provider that rejects the API token.\<close>

definition denied_env :: env where
  "denied_env =
     demo_env\<lparr>certificates_create :=
       (\<lambda>r. ([(''error'', \<lparr>message = JStr ''Unable to authenticate you'', altname = JUndefined,
                              status = JUndefined\<rparr>)],
             Inl ''authorization failed''))\<rparr>"

text \<open>The instance \<open>new TycrekCert(token, domains, email, email, true)\<close> of \<open>test.js\<close>.\<close>

definition test_session :: session where
  "test_session =
     \<lparr>errors = [], domains = [''*.jmoore.dev'', ''jmoore.dev''],
      maintainerEmail = JStr ''josh.moore@jmoore.dev'',
      subscriberEmail = JStr ''josh.moore@jmoore.dev'', testing = True, log = Console,
      challenge = \<lparr>baseUrl = DO_BASE_URL, token = ''secret'',
                   propagationDelay = PROPAGATION_DELAY\<rparr>,
      acme = \<lparr>acme_maintainerEmail = JStr ''josh.moore@jmoore.dev'',
              packageAgent = ''node-certtycrek-certs-custom/1.0.0''\<rparr>,
      accountKey = None, serverKey = None, account = AccountMethod,
      savePath = JUndefined\<rparr>"

section \<open>Auxiliary facts\<close>

lemma toUpperCase_error: "toUpperCase ''error'' = ''ERROR''"
  by code_simp

lemma toUpperCase_warning: "toUpperCase ''warning'' = ''WARNING''"
  by code_simp

lemma notify_all_eq:
  "notify_all s w evs =
     (s\<lparr>errors := errors s @ recorded evs\<rparr>, w\<lparr>logged := logged w @ reported (log s) evs\<rparr>)"
proof (induction evs arbitrary: s w)
  case Nil
  show ?case by simp
next
  case (Cons e evs)
  obtain ev m where e: "e = (ev, m)" by (cases e)
  show ?case
    by (simp add: e Cons.IH notify_def info_def)
qed

lemma reported_sink: "e \<in> set (reported l evs) \<Longrightarrow> sink e = l \<and> lvl e = Info"
  by (induction l evs rule: reported.induct) (auto split: if_splits)

lemma createCertificate_success:
  assumes "createCertificate E s w = (Inr (), s', w')"
  shows "\<exists>bytes csr evs ps data.
           csr_csr E (serverKey s) (domains s) ''der'' = Inr bytes \<and>
           pem_packBlock E ''CERTIFICATE REQUEST'' bytes = Inr csr \<and>
           certificates_create E (request_of s csr) = (evs, Inr ps) \<and>
           keypairs_export E (serverKey s) = Inr data \<and>
           s' = s\<lparr>errors := errors s @ recorded evs\<rparr> \<and>
           trace w' = trace w @
             [CsrCsr (serverKey s) (domains s) ''der'',
              PemPackBlock ''CERTIFICATE REQUEST'' bytes,
              CertificatesCreate (request_of s csr),
              KeypairsExport (serverKey s),
              WriteFile (path_join E (js_or (savePath s) ''.'') ''privkey.pem'') data ''ascii'',
              WriteFile (path_join E (js_or (savePath s) ''.'') ''fullchain.pem'')
                (cert ps @ ''\<newline>'' @ chain ps @ ''\<newline>'') ''ascii''] \<and>
           files w' = (files w)
             (path_join E (js_or (savePath s) ''.'') ''privkey.pem'' \<mapsto> data,
              path_join E (js_or (savePath s) ''.'') ''fullchain.pem'' \<mapsto>
                cert ps @ ''\<newline>'' @ chain ps @ ''\<newline>'') \<and>
           logged w' = logged w @
             Log (log s) Info [JStr LOG_PREFIX, JStr ''Validating domain authorization for:'',
                               JStr (join '', '' (domains s))]
             # reported (log s) evs @
             [Log (log s) Info [JStr LOG_PREFIX, JStr ''Saved privkey.pem''],
              Log (log s) Info [JStr LOG_PREFIX, JStr ''Saved fullchain.pem'']] @
             (if errors s' = [] then []
              else [Log (log s) Warn [JStr LOG_PREFIX,
                      JStr ''The following warnings and/or errors were encountered:''],
                    Log (log s) Warn [JStr LOG_PREFIX, JStr (join ''\<newline>'' (errors s'))]])"
  using assms
  unfolding createCertificate_def Let_def notify_all_eq request_of_def
  by (auto simp: called_def info_def warn_def split: sum.splits option.splits prod.splits if_splits)

section \<open>The notification callback classifies events\<close>

text \<open>
  C7. An event tagged \<open>error\<close> or \<open>warning\<close> appends the uppercased tag, a colon and a
  space, and the message of the event to the error list of the instance, and logs nothing;
  for an event that carries no message the text appended after the colon and the space is
  \<open>undefined\<close>. Any other event leaves the error list alone and logs one informational
  line: the prefix, the event name followed by a colon, the affected domain when there is
  one and the status when there is one (the empty string otherwise).
\<close>

theorem notify_classifies_event:
  "notify s w ''error'' m =
     (s\<lparr>errors := errors s @
          [''ERROR: '' @ (case message m of JUndefined \<Rightarrow> ''undefined'' | JStr t \<Rightarrow> t)]\<rparr>, w) \<and>
   notify s w ''warning'' m =
     (s\<lparr>errors := errors s @
          [''WARNING: '' @ (case message m of JUndefined \<Rightarrow> ''undefined'' | JStr t \<Rightarrow> t)]\<rparr>, w) \<and>
   (ev \<noteq> ''error'' \<and> ev \<noteq> ''warning'' \<longrightarrow>
      notify s w ev m =
        (s, w\<lparr>logged := logged w @
               [Log (log s) Info [JStr LOG_PREFIX, JStr (ev @ '':''),
                                  JStr (case altname m of JUndefined \<Rightarrow> [] | JStr a \<Rightarrow> a),
                                  JStr (case status m of JUndefined \<Rightarrow> [] | JStr c \<Rightarrow> c)]]\<rparr>))"
  by (simp add: notify_def info_def js_string_def js_or_def toUpperCase_error toUpperCase_warning
        split: jsval.splits)

theorem notify_classifies_event_witness:
  "notify test_session world0 ''error''
      \<lparr>message = JStr ''Unable to authenticate you'', altname = JUndefined, status = JUndefined\<rparr>
     = (test_session\<lparr>errors := [''ERROR: Unable to authenticate you'']\<rparr>, world0) \<and>
   notify test_session world0 ''warning''
      \<lparr>message = JUndefined, altname = JStr ''jmoore.dev'', status = JUndefined\<rparr>
     = (test_session\<lparr>errors := [''WARNING: undefined'']\<rparr>, world0) \<and>
   notify test_session world0 ''challenge_status''
      \<lparr>message = JUndefined, altname = JStr ''jmoore.dev'', status = JStr ''valid''\<rparr>
     = (test_session,
        world0\<lparr>logged := [Log Console Info [JStr ''[ TycrekCert ]'', JStr ''challenge_status:'',
                                            JStr ''jmoore.dev'', JStr ''valid'']]\<rparr>)"
  using notify_classifies_event
          [where s = test_session and w = world0 and ev = "''x''"
             and m = "\<lparr>message = JStr ''Unable to authenticate you'', altname = JUndefined,
                        status = JUndefined\<rparr>"]
        notify_classifies_event
          [where s = test_session and w = world0 and ev = "''x''"
             and m = "\<lparr>message = JUndefined, altname = JStr ''jmoore.dev'', status = JUndefined\<rparr>"]
        notify_classifies_event
          [where s = test_session and w = world0 and ev = "''challenge_status''"
             and m = "\<lparr>message = JUndefined, altname = JStr ''jmoore.dev'',
                        status = JStr ''valid''\<rparr>"]
  by (simp add: test_session_def world0_def LOG_PREFIX_def)

lemma demo_run_ok: "fst (createCertificate demo_env test_session world0) = Inr ()"
  by (simp add: createCertificate_def Let_def notify_all_eq demo_env_def called_def info_def warn_def)

lemma createCertificate_ignores_errors:
  "fst (createCertificate E (s\<lparr>errors := es\<rparr>) w) = fst (createCertificate E s w)"
  by (simp add: createCertificate_def Let_def notify_all_eq called_def info_def warn_def
        split: sum.splits option.splits prod.splits)

section \<open>The content of fullchain.pem\<close>

text \<open>
  C4. When \<open>createCertificate\<close> succeeds, the file \<open>fullchain.pem\<close> under the save path holds
  the certificate PEM the ACME client returned, a newline, the chain PEM and one trailing
  newline, and nothing else; writing it is the last call the method makes.
\<close>

theorem fullchain_is_cert_newline_chain_newline:
  assumes "createCertificate E s w = (Inr (), s', w')"
  shows "\<exists>csr evs ps.
           certificates_create E (request_of s csr) = (evs, Inr ps) \<and>
           files w' (path_join E (js_or (savePath s) ''.'') ''fullchain.pem'')
             = Some (cert ps @ ''\<newline>'' @ chain ps @ ''\<newline>'') \<and>
           last (trace w')
             = WriteFile (path_join E (js_or (savePath s) ''.'') ''fullchain.pem'')
                 (cert ps @ ''\<newline>'' @ chain ps @ ''\<newline>'') ''ascii''"
proof -
  from createCertificate_success [OF assms] obtain bytes csr evs ps data where
    issued: "certificates_create E (request_of s csr) = (evs, Inr ps)" and
    tr: "trace w' = trace w @
             [CsrCsr (serverKey s) (domains s) ''der'',
              PemPackBlock ''CERTIFICATE REQUEST'' bytes,
              CertificatesCreate (request_of s csr),
              KeypairsExport (serverKey s),
              WriteFile (path_join E (js_or (savePath s) ''.'') ''privkey.pem'') data ''ascii'',
              WriteFile (path_join E (js_or (savePath s) ''.'') ''fullchain.pem'')
                (cert ps @ ''\<newline>'' @ chain ps @ ''\<newline>'') ''ascii'']" and
    fl: "files w' = (files w)
             (path_join E (js_or (savePath s) ''.'') ''privkey.pem'' \<mapsto> data,
              path_join E (js_or (savePath s) ''.'') ''fullchain.pem'' \<mapsto>
                cert ps @ ''\<newline>'' @ chain ps @ ''\<newline>'')"
    by blast
  from issued tr fl show ?thesis
    by (intro exI [of _ csr] exI [of _ evs] exI [of _ ps]) simp
qed

theorem fullchain_is_cert_newline_chain_newline_witness:
  "fst (createCertificate demo_env test_session world0) = Inr () \<and>
   files (snd (snd (createCertificate demo_env test_session world0))) ''./fullchain.pem''
     = Some ''CERT\<newline>CHAIN\<newline>''"
proof -
  obtain s' w' where run: "createCertificate demo_env test_session world0 = (Inr (), s', w')"
    using demo_run_ok by (metis prod.collapse)
  from fullchain_is_cert_newline_chain_newline [OF run] obtain csr evs ps where
    a: "certificates_create demo_env (request_of test_session csr) = (evs, Inr ps)" and
    b: "files w' (path_join demo_env (js_or (savePath test_session) ''.'') ''fullchain.pem'')
          = Some (cert ps @ ''\<newline>'' @ chain ps @ ''\<newline>'')"
    by blast
  from a have "ps = \<lparr>cert = ''CERT'', chain = ''CHAIN''\<rparr>"
    by (simp add: demo_env_def)
  with b run show ?thesis
    by (simp add: demo_env_def test_session_def js_or_def)
qed

section \<open>A failed issuance writes no file\<close>

text \<open>
  C6. When the CSR was built and the ACME client rejects the issuance,
  \<open>createCertificate\<close> rejects with the client's error, the files are those that were there
  before, and the only library calls made are the three up to the issuance: neither
  \<open>privkey.pem\<close> nor \<open>fullchain.pem\<close> is written.
\<close>

theorem issuance_failure_leaves_no_file:
  assumes "csr_csr E (serverKey s) (domains s) ''der'' = Inr bytes"
      and "pem_packBlock E ''CERTIFICATE REQUEST'' bytes = Inr csr"
      and "certificates_create E (request_of s csr) = (evs, Inl e)"
  shows "fst (createCertificate E s w) = Inl (Thrown e) \<and>
         files (snd (snd (createCertificate E s w))) = files w \<and>
         trace (snd (snd (createCertificate E s w)))
           = trace w @ [CsrCsr (serverKey s) (domains s) ''der'',
                        PemPackBlock ''CERTIFICATE REQUEST'' bytes,
                        CertificatesCreate (request_of s csr)]"
  using assms
  by (simp add: createCertificate_def Let_def notify_all_eq request_of_def called_def info_def)

theorem issuance_failure_leaves_no_file_witness:
  "fst (createCertificate denied_env test_session world0) = Inl (Thrown ''authorization failed'') \<and>
   files (snd (snd (createCertificate denied_env test_session world0))) ''./privkey.pem'' = None \<and>
   files (snd (snd (createCertificate denied_env test_session world0))) ''./fullchain.pem'' = None"
proof -
  have a: "csr_csr denied_env (serverKey test_session) (domains test_session) ''der'' = Inr ''DER''"
    by (simp add: denied_env_def demo_env_def)
  have b: "pem_packBlock denied_env ''CERTIFICATE REQUEST'' ''DER'' = Inr ''CERTIFICATE REQUEST:DER''"
    by (simp add: denied_env_def demo_env_def)
  have c: "certificates_create denied_env (request_of test_session ''CERTIFICATE REQUEST:DER'')
             = ([(''error'', \<lparr>message = JStr ''Unable to authenticate you'', altname = JUndefined,
                              status = JUndefined\<rparr>)], Inl ''authorization failed'')"
    by (simp add: denied_env_def demo_env_def)
  from issuance_failure_leaves_no_file [OF a b c, of world0] show ?thesis
    by (simp add: world0_def)
qed

section \<open>What every method leaves alone\<close>

lemma init_keeps:
  assumes "init E s w = (r, s', w')"
  shows "log s' = log s \<and> account s' = account s \<and> savePath s' = savePath s \<and>
         files w' = files w \<and>
         (\<exists>new. errors s' = errors s @ new) \<and>
         (\<exists>l. logged w' = logged w @ l \<and> (\<forall>e\<in>set l. sink e = log s))"
  using assms
  unfolding init_def Let_def notify_all_eq
  by (auto simp: called_def info_def split: sum.splits option.splits prod.splits
        dest: reported_sink)

lemma TycrekCert_account_keeps:
  assumes "TycrekCert_account E s w = (r, s', w')"
  shows "log s' = log s \<and> savePath s' = savePath s \<and> files w' = files w \<and>
         (\<exists>new. errors s' = errors s @ new) \<and>
         (\<exists>l. logged w' = logged w @ l \<and> (\<forall>e\<in>set l. sink e = log s))"
  using assms
  unfolding TycrekCert_account_def Let_def notify_all_eq
  by (auto simp: called_def info_def split: sum.splits option.splits prod.splits
        dest: reported_sink)

lemma call_account_keeps:
  assumes "call_account E s w = (r, s', w')"
  shows "log s' = log s \<and> savePath s' = savePath s \<and> files w' = files w \<and>
         (\<exists>new. errors s' = errors s @ new) \<and>
         (\<exists>l. logged w' = logged w @ l \<and> (\<forall>e\<in>set l. sink e = log s))"
proof (cases "account s")
  case AccountMethod
  with assms have "TycrekCert_account E s w = (r, s', w')"
    by (simp add: call_account_def)
  then show ?thesis by (rule TycrekCert_account_keeps)
next
  case (AccountValue a)
  with assms show ?thesis by (auto simp: call_account_def)
qed

lemma createCertificate_keeps:
  assumes "createCertificate E s w = (r, s', w')"
  shows "log s' = log s \<and> account s' = account s \<and> savePath s' = savePath s \<and>
         (\<exists>new. errors s' = errors s @ new) \<and>
         (\<exists>l. logged w' = logged w @ l \<and> (\<forall>e\<in>set l. sink e = log s))"
  using assms
  unfolding createCertificate_def Let_def notify_all_eq
  by (auto simp: called_def info_def warn_def split: sum.splits option.splits prod.splits
        dest: reported_sink)

lemma invoke_keeps:
  assumes "invoke E m s w = (r, s', w')"
  shows "log s' = log s \<and>
         (\<exists>new. errors s' = errors s @ new) \<and>
         (\<exists>l. logged w' = logged w @ l \<and> (\<forall>e\<in>set l. sink e = log s))"
proof (cases m)
  case Init
  with assms init_keeps [of E s w r s' w'] show ?thesis by simp
next
  case Account
  with assms call_account_keeps [of E s w r s' w'] show ?thesis by simp
next
  case (SetSavePath p)
  with assms show ?thesis by (auto simp: setSavePath_def Let_def info_def)
next
  case CreateCertificate
  with assms createCertificate_keeps [of E s w r s' w'] show ?thesis by simp
next
  case CallThisForHelp
  with assms show ?thesis by (auto simp: callThisForHelp_def info_def)
qed

lemma exec_keeps:
  "exec E ms s w = (s', w') \<Longrightarrow>
     log s' = log s \<and>
     (\<exists>new. errors s' = errors s @ new) \<and>
     (\<exists>l. logged w' = logged w @ l \<and> (\<forall>e\<in>set l. sink e = log s))"
proof (induction ms arbitrary: s w)
  case Nil
  then show ?case by simp
next
  case (Cons m ms)
  obtain r s1 w1 where step: "invoke E m s w = (r, s1, w1)"
    by (cases "invoke E m s w") auto
  with Cons.prems have rest: "exec E ms s1 w1 = (s', w')" by simp
  from invoke_keeps [OF step] obtain new1 l1 where
    a: "log s1 = log s" "errors s1 = errors s @ new1" "logged w1 = logged w @ l1"
       "\<forall>e\<in>set l1. sink e = log s"
    by blast
  from Cons.IH [OF rest] obtain new2 l2 where
    b: "log s' = log s1" "errors s' = errors s1 @ new2" "logged w' = logged w1 @ l2"
       "\<forall>e\<in>set l2. sink e = log s1"
    by blast
  from a b have "errors s' = errors s @ (new1 @ new2)" "logged w' = logged w @ (l1 @ l2)"
    "\<forall>e\<in>set (l1 @ l2). sink e = log s" "log s' = log s"
    by auto
  then show ?case by blast
qed

section \<open>The error accumulator\<close>

text \<open>
  C5. Whatever methods a client calls, in whatever order, the error list of the instance
  only grows at its end: the list before is a prefix of the list after. The callback either
  appends one entry or leaves the list as it is. When \<open>createCertificate\<close> succeeds, the
  entries the list then holds, in the order they were recorded, newline-joined, are the
  argument of the one warning that follows the headline warning at the end of the log of
  the call (both are left out when the list is empty), every line logged before them is
  informational, and what the list holds has no influence on whether the call succeeds.
\<close>

theorem errors_append_only_and_surfaced:
  "(\<exists>new. errors (fst (exec E ms s w)) = errors s @ new) \<and>
   (\<exists>new. errors (fst (notify s w ev m)) = errors s @ new) \<and>
   fst (createCertificate E (s\<lparr>errors := es\<rparr>) w) = fst (createCertificate E s w) \<and>
   (createCertificate E s w = (Inr (), s', w') \<longrightarrow>
      (\<exists>csr evs ps infos.
          certificates_create E (request_of s csr) = (evs, Inr ps) \<and>
          errors s' = errors s @ recorded evs \<and>
          (\<forall>e\<in>set infos. lvl e = Info) \<and>
          logged w' = logged w @ infos @
            (if errors s' = [] then []
             else [Log (log s) Warn [JStr LOG_PREFIX,
                     JStr ''The following warnings and/or errors were encountered:''],
                   Log (log s) Warn [JStr LOG_PREFIX, JStr (join ''\<newline>'' (errors s'))]])))"
proof (intro conjI impI)
  obtain s1 w1 where "exec E ms s w = (s1, w1)" by (cases "exec E ms s w") auto
  from exec_keeps [OF this] this show "\<exists>new. errors (fst (exec E ms s w)) = errors s @ new"
    by simp
next
  show "\<exists>new. errors (fst (notify s w ev m)) = errors s @ new"
    by (simp add: notify_def)
next
  show "fst (createCertificate E (s\<lparr>errors := es\<rparr>) w) = fst (createCertificate E s w)"
    by (rule createCertificate_ignores_errors)
next
  assume run: "createCertificate E s w = (Inr (), s', w')"
  from createCertificate_success [OF run] obtain bytes csr evs ps data where
    issued: "certificates_create E (request_of s csr) = (evs, Inr ps)" and
    s': "s' = s\<lparr>errors := errors s @ recorded evs\<rparr>" and
    lg: "logged w' = logged w @
             Log (log s) Info [JStr LOG_PREFIX, JStr ''Validating domain authorization for:'',
                               JStr (join '', '' (domains s))]
             # reported (log s) evs @
             [Log (log s) Info [JStr LOG_PREFIX, JStr ''Saved privkey.pem''],
              Log (log s) Info [JStr LOG_PREFIX, JStr ''Saved fullchain.pem'']] @
             (if errors s' = [] then []
              else [Log (log s) Warn [JStr LOG_PREFIX,
                      JStr ''The following warnings and/or errors were encountered:''],
                    Log (log s) Warn [JStr LOG_PREFIX, JStr (join ''\<newline>'' (errors s'))]])"
    by blast
  let ?infos = "Log (log s) Info [JStr LOG_PREFIX, JStr ''Validating domain authorization for:'',
                               JStr (join '', '' (domains s))]
             # reported (log s) evs @
             [Log (log s) Info [JStr LOG_PREFIX, JStr ''Saved privkey.pem''],
              Log (log s) Info [JStr LOG_PREFIX, JStr ''Saved fullchain.pem'']]"
  have infos: "\<forall>e\<in>set ?infos. lvl e = Info"
    by (auto dest: reported_sink)
  from s' have es: "errors s' = errors s @ recorded evs" by simp
  from lg have lg': "logged w' = logged w @ ?infos @
            (if errors s' = [] then []
             else [Log (log s) Warn [JStr LOG_PREFIX,
                     JStr ''The following warnings and/or errors were encountered:''],
                   Log (log s) Warn [JStr LOG_PREFIX, JStr (join ''\<newline>'' (errors s'))]])"
    by simp
  from issued es infos lg'
  show "\<exists>csr evs ps infos.
          certificates_create E (request_of s csr) = (evs, Inr ps) \<and>
          errors s' = errors s @ recorded evs \<and>
          (\<forall>e\<in>set infos. lvl e = Info) \<and>
          logged w' = logged w @ infos @
            (if errors s' = [] then []
             else [Log (log s) Warn [JStr LOG_PREFIX,
                     JStr ''The following warnings and/or errors were encountered:''],
                   Log (log s) Warn [JStr LOG_PREFIX, JStr (join ''\<newline>'' (errors s'))]])"
    by blast
qed

theorem errors_append_only_and_surfaced_witness:
  "fst (createCertificate demo_env (test_session\<lparr>errors := [''ERROR: first'']\<rparr>) world0) = Inr () \<and>
   errors (fst (snd (createCertificate demo_env (test_session\<lparr>errors := [''ERROR: first'']\<rparr>) world0)))
     = [''ERROR: first'', ''WARNING: rate limit close''] \<and>
   drop 4 (logged (snd (snd (createCertificate demo_env
       (test_session\<lparr>errors := [''ERROR: first'']\<rparr>) world0))))
     = [Log Console Warn [JStr ''[ TycrekCert ]'',
          JStr ''The following warnings and/or errors were encountered:''],
        Log Console Warn [JStr ''[ TycrekCert ]'',
          JStr ''ERROR: first\<newline>WARNING: rate limit close'']]"
proof -
  let ?s = "test_session\<lparr>errors := [''ERROR: first'']\<rparr>"
  have ok: "fst (createCertificate demo_env ?s world0) = Inr ()"
    using errors_append_only_and_surfaced [of demo_env "[]" test_session world0 "''x''"
             "\<lparr>message = JUndefined, altname = JUndefined, status = JUndefined\<rparr>"
             "[''ERROR: first'']" test_session world0]
          demo_run_ok
    by simp
  then obtain s' w' where run: "createCertificate demo_env ?s world0 = (Inr (), s', w')"
    by (metis prod.collapse)
  from errors_append_only_and_surfaced [of demo_env "[]" ?s world0 "''x''"
             "\<lparr>message = JUndefined, altname = JUndefined, status = JUndefined\<rparr>"
             "[]" s' w'] run
  obtain csr evs ps infos where
    a: "certificates_create demo_env (request_of ?s csr) = (evs, Inr ps)" and
    b: "errors s' = errors ?s @ recorded evs" and
    c: "\<forall>e\<in>set infos. lvl e = Info" and
    d: "logged w' = logged world0 @ infos @
            (if errors s' = [] then []
             else [Log (log ?s) Warn [JStr LOG_PREFIX,
                     JStr ''The following warnings and/or errors were encountered:''],
                   Log (log ?s) Warn [JStr LOG_PREFIX, JStr (join ''\<newline>'' (errors s'))]])"
    by blast
  from a have evs: "evs = demo_events" by (simp add: demo_env_def)
  have rec: "recorded demo_events = [''WARNING: rate limit close'']"
    by (simp add: demo_events_def toUpperCase_warning js_string_def)
  from b evs rec have es: "errors s' = [''ERROR: first'', ''WARNING: rate limit close'']"
    by simp
  have direct: "drop 4 (logged (snd (snd (createCertificate demo_env ?s world0))))
     = [Log Console Warn [JStr ''[ TycrekCert ]'',
          JStr ''The following warnings and/or errors were encountered:''],
        Log Console Warn [JStr ''[ TycrekCert ]'',
          JStr ''ERROR: first\<newline>WARNING: rate limit close'']]"
    by (simp add: createCertificate_def Let_def notify_all_eq demo_env_def called_def info_def
          warn_def demo_events_def toUpperCase_warning js_string_def test_session_def world0_def
          LOG_PREFIX_def)
  from ok run es direct show ?thesis by simp
qed

section \<open>The save path\<close>

text \<open>
  C9. \<open>setSavePath\<close> is synchronous and cannot fail; it records the directory in the
  instance, logs one informational line, and touches neither the files nor any library.
  The constructor leaves the save path unset, and \<open>init\<close>, \<open>account\<close> and
  \<open>createCertificate\<close> do not change it: the default is taken only when the files are
  written. A successful \<open>createCertificate\<close> writes exactly \<open>privkey.pem\<close> and
  \<open>fullchain.pem\<close>, both joined to the same directory: \<open>.\<close> when the save path is unset
  (or the empty string, which JavaScript treats as unset), the recorded directory otherwise.
\<close>

theorem save_path_selects_output_directory:
  "setSavePath s w p =
     (s\<lparr>savePath := JStr p\<rparr>,
      w\<lparr>logged := logged w @
           [Log (log s) Info [JStr LOG_PREFIX, JStr ''Set save path to:'', JStr p]]\<rparr>) \<and>
   (constructor E tok ds mE sE t lg w0 = (Inr s0, w1) \<longrightarrow> savePath s0 = JUndefined) \<and>
   savePath (fst (snd (init E s w))) = savePath s \<and>
   savePath (fst (snd (call_account E s w))) = savePath s \<and>
   (createCertificate E s w = (Inr (), s', w') \<longrightarrow>
      savePath s' = savePath s \<and>
      (\<exists>data full.
         files w' =
           (files w)
             (path_join E (case savePath s of JUndefined \<Rightarrow> ''.''
                           | JStr d \<Rightarrow> if d = [] then ''.'' else d) ''privkey.pem'' \<mapsto> data,
              path_join E (case savePath s of JUndefined \<Rightarrow> ''.''
                           | JStr d \<Rightarrow> if d = [] then ''.'' else d) ''fullchain.pem'' \<mapsto> full) \<and>
         drop (length (trace w) + 4) (trace w') =
           [WriteFile (path_join E (case savePath s of JUndefined \<Rightarrow> ''.''
                                    | JStr d \<Rightarrow> if d = [] then ''.'' else d) ''privkey.pem'')
              data ''ascii'',
            WriteFile (path_join E (case savePath s of JUndefined \<Rightarrow> ''.''
                                    | JStr d \<Rightarrow> if d = [] then ''.'' else d) ''fullchain.pem'')
              full ''ascii'']))"
proof (intro conjI impI)
  show "setSavePath s w p =
     (s\<lparr>savePath := JStr p\<rparr>,
      w\<lparr>logged := logged w @
           [Log (log s) Info [JStr LOG_PREFIX, JStr ''Set save path to:'', JStr p]]\<rparr>)"
    by (simp add: setSavePath_def Let_def info_def)
next
  assume "constructor E tok ds mE sE t lg w0 = (Inr s0, w1)"
  then show "savePath s0 = JUndefined"
    by (auto simp: constructor_def Let_def split: option.splits)
next
  obtain r s1 w1 where "init E s w = (r, s1, w1)" by (cases "init E s w") auto
  from init_keeps [OF this] this show "savePath (fst (snd (init E s w))) = savePath s"
    by simp
next
  obtain r s1 w1 where "call_account E s w = (r, s1, w1)" by (cases "call_account E s w") auto
  from call_account_keeps [OF this] this
  show "savePath (fst (snd (call_account E s w))) = savePath s"
    by simp
next
  assume run: "createCertificate E s w = (Inr (), s', w')"
  from createCertificate_keeps [OF run] show "savePath s' = savePath s" by simp
next
  assume run: "createCertificate E s w = (Inr (), s', w')"
  let ?dir = "case savePath s of JUndefined \<Rightarrow> ''.'' | JStr d \<Rightarrow> if d = [] then ''.'' else d"
  have dir: "js_or (savePath s) ''.'' = ?dir"
    by (simp add: js_or_def)
  from createCertificate_success [OF run] obtain bytes csr evs ps data where
    issued: "certificates_create E (request_of s csr) = (evs, Inr ps)" and
    tr: "trace w' = trace w @
             [CsrCsr (serverKey s) (domains s) ''der'',
              PemPackBlock ''CERTIFICATE REQUEST'' bytes,
              CertificatesCreate (request_of s csr),
              KeypairsExport (serverKey s),
              WriteFile (path_join E (js_or (savePath s) ''.'') ''privkey.pem'') data ''ascii'',
              WriteFile (path_join E (js_or (savePath s) ''.'') ''fullchain.pem'')
                (cert ps @ ''\<newline>'' @ chain ps @ ''\<newline>'') ''ascii'']" and
    fl: "files w' = (files w)
             (path_join E (js_or (savePath s) ''.'') ''privkey.pem'' \<mapsto> data,
              path_join E (js_or (savePath s) ''.'') ''fullchain.pem'' \<mapsto>
                cert ps @ ''\<newline>'' @ chain ps @ ''\<newline>'')"
    by blast
  from tr have tr': "drop (length (trace w) + 4) (trace w') =
      [WriteFile (path_join E ?dir ''privkey.pem'') data ''ascii'',
       WriteFile (path_join E ?dir ''fullchain.pem'')
         (cert ps @ ''\<newline>'' @ chain ps @ ''\<newline>'') ''ascii'']"
    by (simp add: dir)
  from fl have fl': "files w' = (files w)
      (path_join E ?dir ''privkey.pem'' \<mapsto> data,
       path_join E ?dir ''fullchain.pem'' \<mapsto> cert ps @ ''\<newline>'' @ chain ps @ ''\<newline>'')"
    by (simp add: dir)
  from tr' fl'
  show "\<exists>data full.
         files w' =
           (files w)
             (path_join E ?dir ''privkey.pem'' \<mapsto> data,
              path_join E ?dir ''fullchain.pem'' \<mapsto> full) \<and>
         drop (length (trace w) + 4) (trace w') =
           [WriteFile (path_join E ?dir ''privkey.pem'') data ''ascii'',
            WriteFile (path_join E ?dir ''fullchain.pem'') full ''ascii'']"
    by blast
qed

lemma demo_run_certs_ok:
  "fst (createCertificate demo_env (test_session\<lparr>savePath := JStr ''/certs''\<rparr>) w) = Inr ()"
  by (simp add: createCertificate_def Let_def notify_all_eq demo_env_def called_def info_def warn_def)

theorem save_path_selects_output_directory_witness:
  "fst (setSavePath test_session world0 ''/certs'') = test_session\<lparr>savePath := JStr ''/certs''\<rparr> \<and>
   dom (files (snd (snd (createCertificate demo_env test_session world0))))
     = {''./privkey.pem'', ''./fullchain.pem''} \<and>
   dom (files (snd (snd (createCertificate demo_env
          (fst (setSavePath test_session world0 ''/certs''))
          (snd (setSavePath test_session world0 ''/certs''))))))
     = {''/certs/privkey.pem'', ''/certs/fullchain.pem''}"
proof -
  let ?s = "test_session\<lparr>savePath := JStr ''/certs''\<rparr>"
  let ?w = "world0\<lparr>logged := logged world0 @
           [Log (log test_session) Info [JStr LOG_PREFIX, JStr ''Set save path to:'',
              JStr ''/certs'']]\<rparr>"
  have unset: "savePath test_session = JUndefined"
    by (simp add: test_session_def)
  have "setSavePath test_session world0 ''/certs'' = (?s, ?w)"
    by (rule save_path_selects_output_directory
               [where s = test_session and w = world0 and p = "''/certs''", THEN conjunct1])
  then have set: "fst (setSavePath test_session world0 ''/certs'') = ?s"
      "snd (setSavePath test_session world0 ''/certs'') = ?w"
    by simp_all
  obtain s1 w1 where run1: "createCertificate demo_env test_session world0 = (Inr (), s1, w1)"
    using demo_run_ok by (metis prod.collapse)
  note written1 = save_path_selects_output_directory
         [where s = test_session and w = world0 and E = demo_env and s' = s1 and w' = w1,
          THEN conjunct2, THEN conjunct2, THEN conjunct2, THEN conjunct2, THEN mp, OF run1,
          THEN conjunct2]
  then obtain data full where
    "files w1 = (files world0)(path_join demo_env ''.'' ''privkey.pem'' \<mapsto> data,
                                path_join demo_env ''.'' ''fullchain.pem'' \<mapsto> full)"
    unfolding unset by auto
  then have d1: "dom (files w1) = {''./privkey.pem'', ''./fullchain.pem''}"
    by (auto simp: demo_env_def world0_def)
  obtain s2 w2 where run2: "createCertificate demo_env ?s ?w = (Inr (), s2, w2)"
    using demo_run_certs_ok [of ?w] by (metis prod.collapse)
  note written2 = save_path_selects_output_directory
         [where s = ?s and w = ?w and E = demo_env and s' = s2 and w' = w2,
          THEN conjunct2, THEN conjunct2, THEN conjunct2, THEN conjunct2, THEN mp, OF run2,
          THEN conjunct2]
  then obtain data2 full2 where
    "files w2 = (files ?w)(path_join demo_env ''/certs'' ''privkey.pem'' \<mapsto> data2,
                            path_join demo_env ''/certs'' ''fullchain.pem'' \<mapsto> full2)"
    by auto
  then have d2: "dom (files w2) = {''/certs/privkey.pem'', ''/certs/fullchain.pem''}"
    by (auto simp: demo_env_def world0_def)
  from set run1 d1 run2 d2 show ?thesis
    by simp
qed

section \<open>The method account replaces itself\<close>

lemma invoke_keeps_account_value:
  assumes "account s = AccountValue a" and "invoke E m s w = (r, s', w')"
  shows "account s' = AccountValue a"
proof (cases m)
  case Init
  with assms init_keeps [of E s w r s' w'] show ?thesis by simp
next
  case Account
  with assms show ?thesis by (simp add: call_account_def)
next
  case (SetSavePath p)
  with assms show ?thesis by (auto simp: setSavePath_def Let_def)
next
  case CreateCertificate
  with assms createCertificate_keeps [of E s w r s' w'] show ?thesis by simp
next
  case CallThisForHelp
  with assms show ?thesis by auto
qed

lemma exec_keeps_account_value:
  "account s = AccountValue a \<Longrightarrow> account (fst (exec E ms s w)) = AccountValue a"
proof (induction ms arbitrary: s w)
  case Nil
  then show ?case by simp
next
  case (Cons m ms)
  obtain r s1 w1 where step: "invoke E m s w = (r, s1, w1)"
    by (cases "invoke E m s w") auto
  from invoke_keeps_account_value [OF Cons.prems step] have "account s1 = AccountValue a" .
  from Cons.IH [OF this] step show ?case by simp
qed

lemma demo_account_ok: "fst (call_account demo_env test_session world0) = Inr ()"
  by (simp add: call_account_def TycrekCert_account_def Let_def notify_all_eq demo_env_def
        test_session_def)

text \<open>
  C10. A successful call of \<open>account\<close> found the property still holding the method, and
  leaves it holding the account object the ACME client returned. Whatever methods are
  called afterwards, with whatever libraries, the property keeps holding that object, and
  every further call of \<open>account\<close> fails with a \<open>TypeError\<close> (the property is not a
  function), makes no library call and changes nothing.
\<close>

theorem account_replaces_itself:
  assumes "call_account E s w = (Inr (), s', w')"
  shows "\<exists>evs a.
           accounts_create E (subscriberEmail s) (accountKey s) True = (evs, Inr a) \<and>
           account s = AccountMethod \<and>
           account s' = AccountValue a \<and>
           (\<forall>E2 ms w2. account (fst (exec E2 ms s' w2)) = AccountValue a) \<and>
           (\<forall>E2 E3 ms w2.
              call_account E3 (fst (exec E2 ms s' w2)) (snd (exec E2 ms s' w2))
                = (Inl (TypeError ''cert.account is not a function''),
                   fst (exec E2 ms s' w2), snd (exec E2 ms s' w2)))"
proof -
  from assms have m: "account s = AccountMethod"
    by (auto simp: call_account_def split: account_prop.splits)
  with assms have body: "TycrekCert_account E s w = (Inr (), s', w')"
    by (simp add: call_account_def)
  then obtain evs a where
    created: "accounts_create E (subscriberEmail s) (accountKey s) True = (evs, Inr a)" and
    now: "account s' = AccountValue a"
    unfolding TycrekCert_account_def Let_def notify_all_eq
    by (auto split: sum.splits option.splits prod.splits)
  have kept: "account (fst (exec E2 ms s' w2)) = AccountValue a" for E2 ms w2
    using now by (rule exec_keeps_account_value)
  have again: "call_account E3 (fst (exec E2 ms s' w2)) (snd (exec E2 ms s' w2))
                = (Inl (TypeError ''cert.account is not a function''),
                   fst (exec E2 ms s' w2), snd (exec E2 ms s' w2))" for E2 E3 ms w2
    using kept [of E2 ms w2] by (simp add: call_account_def)
  from created m now kept again show ?thesis by blast
qed

theorem account_replaces_itself_witness:
  "fst (call_account demo_env test_session world0) = Inr () \<and>
   account (fst (snd (call_account demo_env test_session world0)))
     = AccountValue \<lparr>key = Some (AccountKey (JStr ''kid-1''))\<rparr> \<and>
   fst (call_account demo_env (fst (snd (call_account demo_env test_session world0)))
          (snd (snd (call_account demo_env test_session world0))))
     = Inl (TypeError ''cert.account is not a function'')"
proof -
  obtain s' w' where run: "call_account demo_env test_session world0 = (Inr (), s', w')"
    using demo_account_ok by (metis prod.collapse)
  from account_replaces_itself [OF run] obtain evs a where
    created: "accounts_create demo_env (subscriberEmail test_session) (accountKey test_session)
                True = (evs, Inr a)" and
    now: "account s' = AccountValue a" and
    again: "\<forall>E2 E3 ms w2.
              call_account E3 (fst (exec E2 ms s' w2)) (snd (exec E2 ms s' w2))
                = (Inl (TypeError ''cert.account is not a function''),
                   fst (exec E2 ms s' w2), snd (exec E2 ms s' w2))"
    by blast
  from created have a: "a = \<lparr>key = Some (AccountKey (JStr ''kid-1''))\<rparr>"
    by (simp add: demo_env_def)
  from again have "call_account demo_env (fst (exec demo_env [] s' w')) (snd (exec demo_env [] s' w'))
                = (Inl (TypeError ''cert.account is not a function''),
                   fst (exec demo_env [] s' w'), snd (exec demo_env [] s' w'))"
    by blast
  then have second: "fst (call_account demo_env s' w') = Inl (TypeError ''cert.account is not a function'')"
    by simp
  from run now a second show ?thesis by simp
qed

section \<open>The logger argument\<close>

lemma constructor_test_session:
  "constructor demo_env ''secret'' [''*.jmoore.dev'', ''jmoore.dev'']
     (JStr ''josh.moore@jmoore.dev'') (JStr ''josh.moore@jmoore.dev'') (Some True) lg world0
   = (Inr test_session,
      world0\<lparr>trace := [DoCreate DO_BASE_URL ''secret'',
                        AcmeCreate (JStr ''josh.moore@jmoore.dev'')
                          ''node-certtycrek-certs-custom/1.0.0'']\<rparr>)"
  by (simp add: constructor_def Let_def demo_env_def test_session_def world0_def called_def)

text \<open>
  C3, as the claim states it, fails: an instance constructed with a logger of the caller's
  own logs to the console. Here the instance of \<open>test.js\<close> is constructed with the logger
  \<open>Logger 1\<close>, and the line \<open>setSavePath\<close> logs goes to \<open>Console\<close>.
\<close>

theorem injected_logger_counterexample:
  "fst (constructor demo_env ''secret'' [''*.jmoore.dev'', ''jmoore.dev'']
          (JStr ''josh.moore@jmoore.dev'') (JStr ''josh.moore@jmoore.dev'') (Some True)
          (Some (Logger 1)) world0) = Inr test_session \<and>
   logged (snd (setSavePath test_session world0 ''/certs''))
     = [Log Console Info [JStr ''[ TycrekCert ]'', JStr ''Set save path to:'', JStr ''/certs'']] \<and>
   Console \<noteq> Logger 1"
proof -
  have made: "fst (constructor demo_env ''secret'' [''*.jmoore.dev'', ''jmoore.dev'']
          (JStr ''josh.moore@jmoore.dev'') (JStr ''josh.moore@jmoore.dev'') (Some True)
          (Some (Logger 1)) world0) = Inr test_session"
    by (simp only: constructor_test_session fst_conv)
  have line: "logged (snd (setSavePath test_session world0 ''/certs''))
     = [Log Console Info [JStr ''[ TycrekCert ]'', JStr ''Set save path to:'', JStr ''/certs'']]"
    by (simp add: setSavePath_def Let_def info_def world0_def LOG_PREFIX_def test_session_def)
  from made line show ?thesis by simp
qed

text \<open>
  C3, amended. The logger argument is not supported: the constructor does not read it, so
  the instance it returns is the same whatever logger is passed, and that instance logs to
  the built-in console. Every line logged afterwards by any sequence of method calls, and
  by the notification callback, goes to the console.
\<close>

theorem logger_argument_is_ignored:
  "constructor E tok ds mE sE t lg w0 = constructor E tok ds mE sE t None w0 \<and>
   (constructor E tok ds mE sE t lg w0 = (Inr s, w1) \<longrightarrow>
      log s = Console \<and> logged w1 = logged w0 \<and>
      (\<forall>E2 ms w. \<exists>l. logged (snd (exec E2 ms s w)) = logged w @ l \<and>
                      (\<forall>e\<in>set l. sink e = Console)) \<and>
      (\<forall>w ev m. \<exists>l. logged (snd (notify s w ev m)) = logged w @ l \<and>
                     (\<forall>e\<in>set l. sink e = Console)))"
proof (intro conjI impI allI)
  show "constructor E tok ds mE sE t lg w0 = constructor E tok ds mE sE t None w0"
    by (simp add: constructor_def)
next
  assume c: "constructor E tok ds mE sE t lg w0 = (Inr s, w1)"
  then show "log s = Console"
    by (auto simp: constructor_def Let_def split: option.splits)
next
  assume c: "constructor E tok ds mE sE t lg w0 = (Inr s, w1)"
  then show "logged w1 = logged w0"
    by (auto simp: constructor_def Let_def called_def split: option.splits)
next
  fix E2 ms w
  assume c: "constructor E tok ds mE sE t lg w0 = (Inr s, w1)"
  then have console: "log s = Console"
    by (auto simp: constructor_def Let_def split: option.splits)
  obtain s2 w2 where run: "exec E2 ms s w = (s2, w2)" by (cases "exec E2 ms s w") auto
  from exec_keeps [OF run] run console
  show "\<exists>l. logged (snd (exec E2 ms s w)) = logged w @ l \<and> (\<forall>e\<in>set l. sink e = Console)"
    by auto
next
  fix w ev m
  assume c: "constructor E tok ds mE sE t lg w0 = (Inr s, w1)"
  then have console: "log s = Console"
    by (auto simp: constructor_def Let_def split: option.splits)
  then show "\<exists>l. logged (snd (notify s w ev m)) = logged w @ l \<and> (\<forall>e\<in>set l. sink e = Console)"
    by (auto simp: notify_def info_def)
qed

theorem logger_argument_is_ignored_witness:
  "log test_session = Console \<and>
   list_all (\<lambda>e. sink e = Console)
     (logged (snd (exec demo_env [CallThisForHelp, Init, Account, SetSavePath ''/certs'',
                                  CreateCertificate] test_session world0)))"
proof -
  note made = constructor_test_session [of "Some (Logger 1)"]
  note T = logger_argument_is_ignored
             [where E = demo_env and tok = "''secret''" and ds = "[''*.jmoore.dev'', ''jmoore.dev'']"
                and mE = "JStr ''josh.moore@jmoore.dev''" and sE = "JStr ''josh.moore@jmoore.dev''"
                and t = "Some True" and lg = "Some (Logger 1)" and ?w0.0 = world0
                and s = test_session,
              THEN conjunct2, THEN mp, OF made]
  from T have a: "log test_session = Console" by blast
  from T obtain l where
    "logged (snd (exec demo_env [CallThisForHelp, Init, Account, SetSavePath ''/certs'',
                                 CreateCertificate] test_session world0)) = logged world0 @ l"
    "\<forall>e\<in>set l. sink e = Console"
    by blast
  then have "list_all (\<lambda>e. sink e = Console)
     (logged (snd (exec demo_env [CallThisForHelp, Init, Account, SetSavePath ''/certs'',
                                  CreateCertificate] test_session world0)))"
    by (simp add: world0_def list_all_iff)
  with a show ?thesis by simp
qed

section \<open>The directory init connects to\<close>

lemma init_keeps_testing:
  assumes "init E s w = (r, s', w')"
  shows "testing s' = testing s"
  using assms
  unfolding init_def Let_def notify_all_eq
  by (auto split: sum.splits option.splits prod.splits)

lemma call_account_keeps_testing:
  assumes "call_account E s w = (r, s', w')"
  shows "testing s' = testing s"
  using assms
  unfolding call_account_def TycrekCert_account_def Let_def notify_all_eq
  by (auto split: sum.splits option.splits prod.splits account_prop.splits)

lemma createCertificate_keeps_testing:
  assumes "createCertificate E s w = (r, s', w')"
  shows "testing s' = testing s"
  using assms
  unfolding createCertificate_def Let_def notify_all_eq
  by (auto split: sum.splits option.splits prod.splits)

lemma invoke_keeps_testing:
  assumes "invoke E m s w = (r, s', w')"
  shows "testing s' = testing s"
proof (cases m)
  case Init
  with assms init_keeps_testing [of E s w r s' w'] show ?thesis by simp
next
  case Account
  with assms call_account_keeps_testing [of E s w r s' w'] show ?thesis by simp
next
  case (SetSavePath p)
  with assms show ?thesis by (auto simp: setSavePath_def Let_def)
next
  case CreateCertificate
  with assms createCertificate_keeps_testing [of E s w r s' w'] show ?thesis by simp
next
  case CallThisForHelp
  with assms show ?thesis by auto
qed

lemma exec_keeps_testing: "testing (fst (exec E ms s w)) = testing s"
proof (induction ms arbitrary: s w)
  case Nil
  show ?case by simp
next
  case (Cons m ms)
  obtain r s1 w1 where step: "invoke E m s w = (r, s1, w1)"
    by (cases "invoke E m s w") auto
  from invoke_keeps_testing [OF step] Cons.IH [of s1 w1] step show ?case by simp
qed

lemma init_trace:
  "\<exists>rest. trace (snd (snd (init E s w))) =
            trace w @ AcmeInit (DIRECTORY_URL (if testing s then ''test'' else ''prod'')) # rest \<and>
          (\<forall>u. AcmeInit u \<notin> set rest)"
  unfolding init_def Let_def notify_all_eq
  by (auto simp: called_def info_def split: sum.splits option.splits prod.splits)

text \<open>
  C8. The constructor records the staging flag (false when the argument is omitted) and
  no method changes it. \<open>init\<close> calls \<open>acme.init\<close> first and once, with the staging
  directory of Let's Encrypt when the flag is set and with the production directory
  otherwise; the two URLs differ.
\<close>

theorem init_selects_directory:
  "(constructor E tok ds mE sE t lg w0 = (Inr s0, w1) \<longrightarrow> testing s0 = (t = Some True)) \<and>
   testing (fst (exec E ms s w)) = testing s \<and>
   (\<exists>rest. trace (snd (snd (init E s w))) =
             trace w @
             AcmeInit (JStr (if testing s
                             then ''https://acme-staging-v02.api.letsencrypt.org/directory''
                             else ''https://acme-v02.api.letsencrypt.org/directory'')) # rest \<and>
           (\<forall>u. AcmeInit u \<notin> set rest))"
proof (intro conjI impI)
  assume "constructor E tok ds mE sE t lg w0 = (Inr s0, w1)"
  then show "testing s0 = (t = Some True)"
    by (auto simp: constructor_def Let_def split: option.splits)
next
  show "testing (fst (exec E ms s w)) = testing s"
    by (rule exec_keeps_testing)
next
  have "DIRECTORY_URL (if testing s then ''test'' else ''prod'') =
        JStr (if testing s
              then ''https://acme-staging-v02.api.letsencrypt.org/directory''
              else ''https://acme-v02.api.letsencrypt.org/directory'')"
    by (simp add: DIRECTORY_URL_def)
  with init_trace [of E s w]
  show "\<exists>rest. trace (snd (snd (init E s w))) =
             trace w @
             AcmeInit (JStr (if testing s
                             then ''https://acme-staging-v02.api.letsencrypt.org/directory''
                             else ''https://acme-v02.api.letsencrypt.org/directory'')) # rest \<and>
           (\<forall>u. AcmeInit u \<notin> set rest)"
    by simp
qed

theorem init_selects_directory_witness:
  "testing test_session \<and>
   hd (trace (snd (snd (init demo_env test_session world0))))
     = AcmeInit (JStr ''https://acme-staging-v02.api.letsencrypt.org/directory'') \<and>
   hd (trace (snd (snd (init demo_env (test_session\<lparr>testing := False\<rparr>) world0))))
     = AcmeInit (JStr ''https://acme-v02.api.letsencrypt.org/directory'')"
proof -
  note made = constructor_test_session [of None]
  from init_selects_directory
         [where E = demo_env and tok = "''secret''" and ds = "[''*.jmoore.dev'', ''jmoore.dev'']"
            and mE = "JStr ''josh.moore@jmoore.dev''" and sE = "JStr ''josh.moore@jmoore.dev''"
            and t = "Some True" and lg = None and ?w0.0 = world0 and ?s0.0 = test_session,
          THEN conjunct1, THEN mp, OF made]
  have flag: "testing test_session" by simp
  from init_selects_directory
         [where E = demo_env and s = test_session and w = world0,
          THEN conjunct2, THEN conjunct2] flag
  have staging: "hd (trace (snd (snd (init demo_env test_session world0))))
     = AcmeInit (JStr ''https://acme-staging-v02.api.letsencrypt.org/directory'')"
    by (auto simp: world0_def)
  from init_selects_directory
         [where E = demo_env and s = "test_session\<lparr>testing := False\<rparr>" and w = world0,
          THEN conjunct2, THEN conjunct2]
  have prod: "hd (trace (snd (snd (init demo_env (test_session\<lparr>testing := False\<rparr>) world0))))
     = AcmeInit (JStr ''https://acme-v02.api.letsencrypt.org/directory'')"
    by (auto simp: world0_def)
  from flag staging prod show ?thesis by simp
qed

section \<open>createCertificate before account\<close>

lemma demo_init_ok:
  "init demo_env test_session world0 =
     (Inr (),
      test_session\<lparr>accountKey := Some ''EC-private'', serverKey := Some ''RSA-private''\<rparr>,
      world0\<lparr>trace := [AcmeInit (JStr ''https://acme-staging-v02.api.letsencrypt.org/directory''),
                        KeypairsGenerate ''EC'' ''jwk'', KeypairsGenerate ''RSA'' ''jwk''],
             logged := [Log Console Info [JStr LOG_PREFIX,
                          JStr ''ACME client and private keys successfully initialized'']]\<rparr>)"
  by (simp add: init_def Let_def notify_all_eq demo_env_def test_session_def world0_def
        called_def info_def DIRECTORY_URL_def)

lemma createCertificate_first_call:
  "\<exists>rest. trace (snd (snd (createCertificate E s w))) =
            trace w @ CsrCsr (serverKey s) (domains s) ''der'' # rest \<and>
          (\<forall>req. CertificatesCreate req \<in> set rest \<longrightarrow>
             req_account req = account s \<and> req_accountKey req = accountKey s)"
  unfolding createCertificate_def Let_def notify_all_eq
  by (auto simp: called_def info_def warn_def split: sum.splits option.splits prod.splits)

lemma createCertificate_failure:
  assumes "fst (createCertificate E s w) = Inl e"
  shows "\<exists>x. e = Thrown x \<and>
           (csr_csr E (serverKey s) (domains s) ''der'' = Inl x \<or>
            (\<exists>b. pem_packBlock E ''CERTIFICATE REQUEST'' b = Inl x) \<or>
            (\<exists>c evs. certificates_create E (request_of s c) = (evs, Inl x)) \<or>
            keypairs_export E (serverKey s) = Inl x \<or>
            (\<exists>p d. fs_writeFile E p d ''ascii'' = Some x))"
  using assms
  unfolding createCertificate_def Let_def notify_all_eq request_of_def
  by (auto simp: called_def info_def warn_def split: sum.splits option.splits prod.splits)

lemma createCertificate_succeeds:
  assumes "csr_csr E (serverKey s) (domains s) ''der'' = Inr bytes"
      and "pem_packBlock E ''CERTIFICATE REQUEST'' bytes = Inr csr"
      and "certificates_create E (request_of s csr) = (evs, Inr ps)"
      and "keypairs_export E (serverKey s) = Inr data"
      and "fs_writeFile E (path_join E (js_or (savePath s) ''.'') ''privkey.pem'') data ''ascii''
             = None"
      and "fs_writeFile E (path_join E (js_or (savePath s) ''.'') ''fullchain.pem'')
             (cert ps @ ''\<newline>'' @ chain ps @ ''\<newline>'') ''ascii'' = None"
  shows "fst (createCertificate E s w) = Inr ()"
  using assms
  by (simp add: createCertificate_def Let_def notify_all_eq request_of_def called_def info_def
        warn_def)

text \<open>
  C1, as the claim states it, fails: after \<open>init\<close> and before \<open>account\<close>, with libraries
  that accept the call, \<open>createCertificate\<close> does not fail. It hands the property
  \<open>account\<close>, which still holds the method, to the ACME client and writes both files.
\<close>

theorem createCertificate_before_account_counterexample:
  "fst (init demo_env test_session world0) = Inr () \<and>
   account (fst (snd (init demo_env test_session world0))) = AccountMethod \<and>
   fst (createCertificate demo_env (fst (snd (init demo_env test_session world0)))
          (snd (snd (init demo_env test_session world0)))) = Inr () \<and>
   files (snd (snd (createCertificate demo_env (fst (snd (init demo_env test_session world0)))
          (snd (snd (init demo_env test_session world0)))))) ''./privkey.pem'' = Some ''PRIVKEY'' \<and>
   files (snd (snd (createCertificate demo_env (fst (snd (init demo_env test_session world0)))
          (snd (snd (init demo_env test_session world0)))))) ''./fullchain.pem''
     = Some ''CERT\<newline>CHAIN\<newline>''"
proof -
  let ?s = "test_session\<lparr>accountKey := Some ''EC-private'', serverKey := Some ''RSA-private''\<rparr>"
  let ?w = "world0\<lparr>trace := [AcmeInit (JStr ''https://acme-staging-v02.api.letsencrypt.org/directory''),
                        KeypairsGenerate ''EC'' ''jwk'', KeypairsGenerate ''RSA'' ''jwk''],
             logged := [Log Console Info [JStr LOG_PREFIX,
                          JStr ''ACME client and private keys successfully initialized'']]\<rparr>"
  have fields: "account ?s = AccountMethod" "savePath ?s = JUndefined"
    by (simp_all add: test_session_def)
  have before: "files ?w = Map.empty"
    by (simp add: world0_def)
  have ok: "fst (createCertificate demo_env ?s ?w) = Inr ()"
    by (rule createCertificate_succeeds
               [where bytes = "''DER''" and csr = "''CERTIFICATE REQUEST:DER''"
                  and evs = demo_events and ps = "\<lparr>cert = ''CERT'', chain = ''CHAIN''\<rparr>"
                  and data = "''PRIVKEY''"])
       (simp_all add: demo_env_def)
  then obtain s' w' where run: "createCertificate demo_env ?s ?w = (Inr (), s', w')"
    by (metis prod.collapse)
  from createCertificate_success [OF run] obtain bytes csr evs ps data where
    issued: "certificates_create demo_env (request_of ?s csr) = (evs, Inr ps)" and
    exported: "keypairs_export demo_env (serverKey ?s) = Inr data" and
    written: "files w' = (files ?w)
             (path_join demo_env (js_or (savePath ?s) ''.'') ''privkey.pem'' \<mapsto> data,
              path_join demo_env (js_or (savePath ?s) ''.'') ''fullchain.pem'' \<mapsto>
                cert ps @ ''\<newline>'' @ chain ps @ ''\<newline>'')"
    by blast
  from issued have ps: "ps = \<lparr>cert = ''CERT'', chain = ''CHAIN''\<rparr>"
    by (simp add: demo_env_def)
  from exported have data: "data = ''PRIVKEY''"
    by (simp add: demo_env_def)
  have paths: "path_join demo_env (js_or (savePath ?s) ''.'') ''privkey.pem'' = ''./privkey.pem''"
    "path_join demo_env (js_or (savePath ?s) ''.'') ''fullchain.pem'' = ''./fullchain.pem''"
    by (simp_all add: fields js_or_def demo_env_def)
  from written have "files w' ''./privkey.pem'' = Some ''PRIVKEY''"
    "files w' ''./fullchain.pem'' = Some ''CERT\<newline>CHAIN\<newline>''"
    unfolding paths before ps data by simp_all
  with run fields show ?thesis
    unfolding demo_init_ok by simp
qed

text \<open>
  C1, amended. \<open>createCertificate\<close> makes no check of its own on whether \<open>init\<close> or
  \<open>account\<close> has completed. Its first library call is \<open>CSR.csr\<close> with the server key of the
  instance as it is (undefined before \<open>init\<close>), and the request it hands to
  \<open>acme.certificates.create\<close> carries the property \<open>account\<close> and the account key as they
  are (before \<open>account\<close>: the method itself). It fails only with the error that one of its
  library calls threw, and it succeeds whenever those calls succeed.
\<close>

theorem createCertificate_makes_no_ordering_check:
  "(\<exists>rest. trace (snd (snd (createCertificate E s w))) =
             trace w @ CsrCsr (serverKey s) (domains s) ''der'' # rest \<and>
           (\<forall>req. CertificatesCreate req \<in> set rest \<longrightarrow>
              req_account req = account s \<and> req_accountKey req = accountKey s)) \<and>
   (\<forall>e. fst (createCertificate E s w) = Inl e \<longrightarrow>
      (\<exists>x. e = Thrown x \<and>
           (csr_csr E (serverKey s) (domains s) ''der'' = Inl x \<or>
            (\<exists>b. pem_packBlock E ''CERTIFICATE REQUEST'' b = Inl x) \<or>
            (\<exists>c evs. certificates_create E (request_of s c) = (evs, Inl x)) \<or>
            keypairs_export E (serverKey s) = Inl x \<or>
            (\<exists>p d. fs_writeFile E p d ''ascii'' = Some x)))) \<and>
   (csr_csr E (serverKey s) (domains s) ''der'' = Inr bytes \<and>
    pem_packBlock E ''CERTIFICATE REQUEST'' bytes = Inr csr \<and>
    certificates_create E (request_of s csr) = (evs, Inr ps) \<and>
    keypairs_export E (serverKey s) = Inr data \<and>
    fs_writeFile E (path_join E (js_or (savePath s) ''.'') ''privkey.pem'') data ''ascii''
      = None \<and>
    fs_writeFile E (path_join E (js_or (savePath s) ''.'') ''fullchain.pem'')
      (cert ps @ ''\<newline>'' @ chain ps @ ''\<newline>'') ''ascii'' = None
    \<longrightarrow> fst (createCertificate E s w) = Inr ())"
  using createCertificate_first_call [of E s w] createCertificate_failure [of E s w]
    createCertificate_succeeds [of E s bytes csr evs ps data w]
  by blast

theorem createCertificate_makes_no_ordering_check_witness:
  "account test_session = AccountMethod \<and> serverKey test_session = None \<and>
   fst (createCertificate demo_env test_session world0) = Inr () \<and>
   hd (trace (snd (snd (createCertificate demo_env test_session world0))))
     = CsrCsr None [''*.jmoore.dev'', ''jmoore.dev''] ''der''"
proof -
  note T = createCertificate_makes_no_ordering_check
             [where E = demo_env and s = test_session and w = world0 and bytes = "''DER''"
                and csr = "''CERTIFICATE REQUEST:DER''" and evs = demo_events
                and ps = "\<lparr>cert = ''CERT'', chain = ''CHAIN''\<rparr>" and data = "''PRIVKEY''"]
  have unset: "account test_session = AccountMethod" "serverKey test_session = None"
    "domains test_session = [''*.jmoore.dev'', ''jmoore.dev'']"
    by (simp_all add: test_session_def)
  have "fst (createCertificate demo_env test_session world0) = Inr ()"
    by (rule T [THEN conjunct2, THEN conjunct2, THEN mp]) (simp add: demo_env_def)
  moreover from T [THEN conjunct1]
  have "hd (trace (snd (snd (createCertificate demo_env test_session world0))))
     = CsrCsr None [''*.jmoore.dev'', ''jmoore.dev''] ''der''"
    by (auto simp: unset world0_def)
  ultimately show ?thesis using unset by simp
qed

section \<open>The constructor validates nothing\<close>

lemma constructor_result:
  "fst (constructor E tok ds mE sE t lg w) =
     (case do_create E DO_BASE_URL tok of
        Some x \<Rightarrow> Inl (Thrown x)
      | None \<Rightarrow>
         (case acme_create E mE (''node-cert'' @ pkg_name E @ ''/'' @ pkg_version E) of
            Some x \<Rightarrow> Inl (Thrown x)
          | None \<Rightarrow>
             Inr \<lparr>errors = [], domains = ds, maintainerEmail = mE, subscriberEmail = sE,
                   testing = (t = Some True), log = Console,
                   challenge = \<lparr>baseUrl = DO_BASE_URL, token = tok,
                                propagationDelay = PROPAGATION_DELAY\<rparr>,
                   acme = \<lparr>acme_maintainerEmail = mE,
                           packageAgent = ''node-cert'' @ pkg_name E @ ''/'' @ pkg_version E\<rparr>,
                   accountKey = None, serverKey = None, account = AccountMethod,
                   savePath = JUndefined\<rparr>))"
  by (auto simp: constructor_def Let_def split: option.splits)

lemma constructor_world:
  "snd (constructor E tok ds mE sE t lg w) =
     (case do_create E DO_BASE_URL tok of
        Some x \<Rightarrow> w\<lparr>trace := trace w @ [DoCreate DO_BASE_URL tok]\<rparr>
      | None \<Rightarrow>
         w\<lparr>trace := trace w @
              [DoCreate DO_BASE_URL tok,
               AcmeCreate mE (''node-cert'' @ pkg_name E @ ''/'' @ pkg_version E)]\<rparr>)"
  by (auto simp: constructor_def Let_def called_def split: option.splits)

lemma constructor_without_domains:
  "fst (constructor demo_env ''secret'' [] (JStr ''josh.moore@jmoore.dev'') JUndefined
          (Some True) None world0)
     = Inr (test_session\<lparr>domains := [], subscriberEmail := JUndefined\<rparr>)"
  by (simp add: constructor_result demo_env_def test_session_def)

lemma init_hands_on:
  "\<exists>n. trace (snd (snd (init E u v))) =
         trace v @ take n [AcmeInit (DIRECTORY_URL (if testing u then ''test'' else ''prod'')),
                           KeypairsGenerate ''EC'' ''jwk'', KeypairsGenerate ''RSA'' ''jwk'']"
proof -
  let ?cs = "[AcmeInit (DIRECTORY_URL (if testing u then ''test'' else ''prod'')),
              KeypairsGenerate ''EC'' ''jwk'', KeypairsGenerate ''RSA'' ''jwk'']"
  have "trace (snd (snd (init E u v))) = trace v @ take 1 ?cs \<or>
        trace (snd (snd (init E u v))) = trace v @ take 2 ?cs \<or>
        trace (snd (snd (init E u v))) = trace v @ take 3 ?cs"
    unfolding init_def Let_def notify_all_eq
    by (simp add: called_def info_def split: sum.splits option.splits prod.splits)
  then show ?thesis by blast
qed

lemma call_account_hands_on:
  "account u = AccountMethod \<Longrightarrow>
     trace (snd (snd (call_account E u v))) =
       trace v @ [AccountsCreate (subscriberEmail u) (accountKey u) True]"
  unfolding call_account_def TycrekCert_account_def Let_def notify_all_eq
  by (simp add: called_def info_def split: sum.splits option.splits prod.splits)

lemma createCertificate_hands_on:
  "\<exists>rest. trace (snd (snd (createCertificate E u v))) =
            trace v @ CsrCsr (serverKey u) (domains u) ''der'' # rest"
  unfolding createCertificate_def Let_def notify_all_eq
  by (simp add: called_def info_def warn_def split: sum.splits option.splits prod.splits)

lemma init_keeps_inputs:
  assumes "init E s w = (r, s', w')"
  shows "domains s' = domains s \<and> subscriberEmail s' = subscriberEmail s"
  using assms
  unfolding init_def Let_def notify_all_eq
  by (auto split: sum.splits option.splits prod.splits)

lemma call_account_keeps_inputs:
  assumes "call_account E s w = (r, s', w')"
  shows "domains s' = domains s \<and> subscriberEmail s' = subscriberEmail s"
  using assms
  unfolding call_account_def TycrekCert_account_def Let_def notify_all_eq
  by (auto split: sum.splits option.splits prod.splits account_prop.splits)

lemma createCertificate_keeps_inputs:
  assumes "createCertificate E s w = (r, s', w')"
  shows "domains s' = domains s \<and> subscriberEmail s' = subscriberEmail s"
  using assms
  unfolding createCertificate_def Let_def notify_all_eq
  by (auto split: sum.splits option.splits prod.splits)

lemma invoke_keeps_inputs:
  assumes "invoke E m s w = (r, s', w')"
  shows "domains s' = domains s \<and> subscriberEmail s' = subscriberEmail s"
proof (cases m)
  case Init
  with assms init_keeps_inputs [of E s w r s' w'] show ?thesis by simp
next
  case Account
  with assms call_account_keeps_inputs [of E s w r s' w'] show ?thesis by simp
next
  case (SetSavePath p)
  with assms show ?thesis by (auto simp: setSavePath_def Let_def)
next
  case CreateCertificate
  with assms createCertificate_keeps_inputs [of E s w r s' w'] show ?thesis by simp
next
  case CallThisForHelp
  with assms show ?thesis by auto
qed

lemma exec_keeps_inputs:
  "domains (fst (exec E ms s w)) = domains s \<and>
   subscriberEmail (fst (exec E ms s w)) = subscriberEmail s"
proof (induction ms arbitrary: s w)
  case Nil
  show ?case by simp
next
  case (Cons m ms)
  obtain r s1 w1 where step: "invoke E m s w = (r, s1, w1)"
    by (cases "invoke E m s w") auto
  from invoke_keeps_inputs [OF step] Cons.IH [of s1 w1] step show ?case by simp
qed

text \<open>
  C2, as the claim states it, fails: with libraries that accept the call, constructing an
  instance with an empty domain list and no subscriber email succeeds.
\<close>

theorem constructor_accepts_malformed_counterexample:
  "fst (constructor demo_env ''secret'' [] (JStr ''josh.moore@jmoore.dev'') JUndefined
          (Some True) None world0)
     = Inr (test_session\<lparr>domains := [], subscriberEmail := JUndefined\<rparr>)"
  by (rule constructor_without_domains)

text \<open>
  C2, amended. The constructor validates none of its arguments. It calls \<open>DO.create\<close> with
  the token and \<open>ACME.create\<close> with the maintainer email, and nothing else; it fails only
  when one of the two throws, with what was thrown. The domain list and the subscriber
  email reach neither call, so whether construction succeeds, and every call it makes,
  are the same for an empty domain list or a missing subscriber email as for any other.
  On success the instance holds the domain list and both emails as they were given, and
  no file has been touched.

  Such inputs are first handed to a library later. No method changes the domain list or
  the subscriber email of an instance. \<open>init\<close> makes at most its three calls
  (\<open>acme.init\<close> with the directory URL and \<open>Keypairs.generate\<close> twice), and
  \<open>setSavePath\<close> and \<open>callThisForHelp\<close> make none: neither value is handed on. The one
  library call of \<open>account\<close> is \<open>acme.accounts.create\<close> with the subscriber email as it
  is, and the first library call of \<open>createCertificate\<close> is \<open>CSR.csr\<close> with the domain
  list as it is.
\<close>

theorem constructor_validates_nothing:
  "isl (fst (constructor E tok ds mE sE t lg w)) = isl (fst (constructor E tok ds2 mE sE2 t lg w)) \<and>
   snd (constructor E tok ds mE sE t lg w) = snd (constructor E tok ds2 mE sE2 t lg w) \<and>
   (\<forall>e. fst (constructor E tok ds mE sE t lg w) = Inl e \<longrightarrow>
      (\<exists>x. e = Thrown x \<and>
           (do_create E DO_BASE_URL tok = Some x \<or>
            acme_create E mE (''node-cert'' @ pkg_name E @ ''/'' @ pkg_version E) = Some x))) \<and>
   (do_create E DO_BASE_URL tok = None \<and>
    acme_create E mE (''node-cert'' @ pkg_name E @ ''/'' @ pkg_version E) = None \<longrightarrow>
      (\<exists>s. fst (constructor E tok ds mE sE t lg w) = Inr s)) \<and>
   (constructor E tok ds mE sE t lg w = (Inr s, w') \<longrightarrow>
      domains s = ds \<and> maintainerEmail s = mE \<and> subscriberEmail s = sE \<and>
      files w' = files w \<and>
      trace w' = trace w @
        [DoCreate DO_BASE_URL tok,
         AcmeCreate mE (''node-cert'' @ pkg_name E @ ''/'' @ pkg_version E)]) \<and>
   domains (fst (exec E ms u v)) = domains u \<and>
   subscriberEmail (fst (exec E ms u v)) = subscriberEmail u \<and>
   (\<exists>n. trace (snd (snd (init E u v))) =
          trace v @ take n [AcmeInit (DIRECTORY_URL (if testing u then ''test'' else ''prod'')),
                            KeypairsGenerate ''EC'' ''jwk'', KeypairsGenerate ''RSA'' ''jwk'']) \<and>
   trace (snd (setSavePath u v p)) = trace v \<and>
   trace (callThisForHelp u v) = trace v \<and>
   (account u = AccountMethod \<longrightarrow>
      trace (snd (snd (call_account E u v))) =
        trace v @ [AccountsCreate (subscriberEmail u) (accountKey u) True]) \<and>
   (\<exists>rest. trace (snd (snd (createCertificate E u v))) =
             trace v @ CsrCsr (serverKey u) (domains u) ''der'' # rest)"
proof (intro conjI impI allI)
  show "isl (fst (constructor E tok ds mE sE t lg w))
          = isl (fst (constructor E tok ds2 mE sE2 t lg w))"
    by (simp add: constructor_result split: option.splits)
next
  show "snd (constructor E tok ds mE sE t lg w) = snd (constructor E tok ds2 mE sE2 t lg w)"
    by (simp add: constructor_world)
next
  fix e
  assume "fst (constructor E tok ds mE sE t lg w) = Inl e"
  then show "\<exists>x. e = Thrown x \<and>
           (do_create E DO_BASE_URL tok = Some x \<or>
            acme_create E mE (''node-cert'' @ pkg_name E @ ''/'' @ pkg_version E) = Some x)"
    by (auto simp: constructor_result split: option.splits)
next
  assume "do_create E DO_BASE_URL tok = None \<and>
    acme_create E mE (''node-cert'' @ pkg_name E @ ''/'' @ pkg_version E) = None"
  then show "\<exists>s. fst (constructor E tok ds mE sE t lg w) = Inr s"
    by (simp add: constructor_result)
next
  assume c: "constructor E tok ds mE sE t lg w = (Inr s, w')"
  from c have r: "fst (constructor E tok ds mE sE t lg w) = Inr s" by simp
  from r show "domains s = ds"
    by (auto simp: constructor_result split: option.splits)
  from r show "maintainerEmail s = mE"
    by (auto simp: constructor_result split: option.splits)
  from r show "subscriberEmail s = sE"
    by (auto simp: constructor_result split: option.splits)
  from c have v: "snd (constructor E tok ds mE sE t lg w) = w'" by simp
  from r have d: "do_create E DO_BASE_URL tok = None"
    by (auto simp: constructor_result split: option.splits)
  from v d show "files w' = files w"
    by (auto simp: constructor_world)
  from v d show "trace w' = trace w @
        [DoCreate DO_BASE_URL tok,
         AcmeCreate mE (''node-cert'' @ pkg_name E @ ''/'' @ pkg_version E)]"
    by (auto simp: constructor_world)
next
  show "domains (fst (exec E ms u v)) = domains u"
    by (simp add: exec_keeps_inputs)
next
  show "subscriberEmail (fst (exec E ms u v)) = subscriberEmail u"
    by (simp add: exec_keeps_inputs)
next
  show "\<exists>n. trace (snd (snd (init E u v))) =
          trace v @ take n [AcmeInit (DIRECTORY_URL (if testing u then ''test'' else ''prod'')),
                            KeypairsGenerate ''EC'' ''jwk'', KeypairsGenerate ''RSA'' ''jwk'']"
    by (rule init_hands_on)
next
  show "trace (snd (setSavePath u v p)) = trace v"
    by (simp add: setSavePath_def Let_def info_def)
next
  show "trace (callThisForHelp u v) = trace v"
    by (simp add: callThisForHelp_def info_def)
next
  assume "account u = AccountMethod"
  then show "trace (snd (snd (call_account E u v))) =
        trace v @ [AccountsCreate (subscriberEmail u) (accountKey u) True]"
    by (rule call_account_hands_on)
next
  show "\<exists>rest. trace (snd (snd (createCertificate E u v))) =
             trace v @ CsrCsr (serverKey u) (domains u) ''der'' # rest"
    by (rule createCertificate_hands_on)
qed

theorem constructor_validates_nothing_witness:
  "domains (test_session\<lparr>domains := [], subscriberEmail := JUndefined\<rparr>) = [] \<and>
   subscriberEmail (test_session\<lparr>domains := [], subscriberEmail := JUndefined\<rparr>) = JUndefined \<and>
   trace (snd (constructor demo_env ''secret'' [] (JStr ''josh.moore@jmoore.dev'') JUndefined
                 (Some True) None world0))
     = [DoCreate ''https://api.digitalocean.com/v2/domains'' ''secret'',
        AcmeCreate (JStr ''josh.moore@jmoore.dev'') ''node-certtycrek-certs-custom/1.0.0''] \<and>
   trace (snd (snd (call_account demo_env
                      (test_session\<lparr>domains := [], subscriberEmail := JUndefined\<rparr>) world0)))
     = [AccountsCreate JUndefined None True] \<and>
   hd (trace (snd (snd (createCertificate demo_env
                      (test_session\<lparr>domains := [], subscriberEmail := JUndefined\<rparr>) world0))))
     = CsrCsr None [] ''der''"
proof -
  let ?s = "test_session\<lparr>domains := [], subscriberEmail := JUndefined\<rparr>"
  obtain w' where made:
    "constructor demo_env ''secret'' [] (JStr ''josh.moore@jmoore.dev'') JUndefined
       (Some True) None world0 = (Inr ?s, w')"
    using constructor_without_domains by (metis prod.collapse)
  note T = constructor_validates_nothing
             [where E = demo_env and tok = "''secret''" and ds = "[]"
                and mE = "JStr ''josh.moore@jmoore.dev''" and sE = JUndefined
                and t = "Some True" and lg = None and w = world0 and s = ?s and w' = w'
                and u = ?s and v = world0]
  note built = T [THEN conjunct2, THEN conjunct2, THEN conjunct2, THEN conjunct2,
                  THEN conjunct1, THEN mp, OF made]
  have fields: "account ?s = AccountMethod" "accountKey ?s = None" "serverKey ?s = None"
    "domains ?s = []" "subscriberEmail ?s = JUndefined"
    by (simp_all add: test_session_def)
  note later = T [THEN conjunct2, THEN conjunct2, THEN conjunct2, THEN conjunct2,
                  THEN conjunct2, THEN conjunct2, THEN conjunct2, THEN conjunct2,
                  THEN conjunct2, THEN conjunct2]
  from later [THEN conjunct1, THEN mp, OF fields(1)]
  have registered: "trace (snd (snd (call_account demo_env ?s world0)))
     = [AccountsCreate JUndefined None True]"
    unfolding fields by (simp add: world0_def)
  from later [THEN conjunct2]
  have requested: "hd (trace (snd (snd (createCertificate demo_env ?s world0))))
     = CsrCsr None [] ''der''"
    unfolding fields by (auto simp: world0_def)
  from built made have
    "trace (snd (constructor demo_env ''secret'' [] (JStr ''josh.moore@jmoore.dev'') JUndefined
                 (Some True) None world0))
     = [DoCreate ''https://api.digitalocean.com/v2/domains'' ''secret'',
        AcmeCreate (JStr ''josh.moore@jmoore.dev'') ''node-certtycrek-certs-custom/1.0.0'']"
    by (simp add: world0_def demo_env_def DO_BASE_URL_def)
  with fields registered requested show ?thesis by simp
qed

end
